theory Spec2Isabelle
  imports Complex_Main "HOL-Library.AList" "HOL-Library.Log_Nat"
begin

section \<open>The arithmetic tools\<close>

text \<open>
  \<^verbatim>\<open>1_basic_agent.py\<close>, \<^verbatim>\<open>2_tools.py\<close> and \<^verbatim>\<open>3_state.py\<close> each define
  \<^verbatim>\<open>def multiply(a: float, b: float) -> float: return a * b\<close> and
  \<^verbatim>\<open>def add(a: float, b: float) -> float: return a + b\<close>.
  Python does not enforce the annotations: the operator is that of the arguments. A
  number is an \<^verbatim>\<open>int\<close> (unbounded) or a \<^verbatim>\<open>float\<close>, a binary64 value written
  \<open>FloatNum m e\<close> for \<open>m * 2 ^ e\<close>. Only finite floats are modelled, and exponents are
  not bounded: overflow to infinity, subnormal results and \<^verbatim>\<open>nan\<close> are left out.
\<close>

datatype number = IntNum int | FloatNum int int

text \<open>
  The value \<open>m * 2 ^ e\<close> rounded to 53 significant bits, to the nearest value and to the
  even one of two nearest, as binary64 arithmetic rounds every result.
\<close>

definition round53 :: "int \<Rightarrow> int \<Rightarrow> int \<times> int" where
  "round53 m e =
     (let k = bitlen \<bar>m\<bar> - 53
      in if k \<le> 0 then (m, e)
         else (let d = 2 ^ nat k; q = m div d; r = m mod d; h = d div 2
               in (if h < r \<or> (r = h \<and> odd q) then q + 1 else q, e + k)))"

text \<open>An operand as a float: an \<^verbatim>\<open>int\<close> that meets a \<^verbatim>\<open>float\<close> is converted, with rounding.\<close>

fun as_float :: "number \<Rightarrow> int \<times> int" where
  "as_float (IntNum i) = round53 i 0"
| "as_float (FloatNum m e) = (m, e)"

definition float_add :: "int \<times> int \<Rightarrow> int \<times> int \<Rightarrow> int \<times> int" where
  "float_add x y =
     (case (x, y) of ((m1, e1), (m2, e2)) \<Rightarrow>
        (let e = min e1 e2 in round53 (m1 * 2 ^ nat (e1 - e) + m2 * 2 ^ nat (e2 - e)) e))"



fun add :: "number \<Rightarrow> number \<Rightarrow> number" where
  "add (IntNum a) (IntNum b) = IntNum (a + b)"
| "add a b = (case float_add (as_float a) (as_float b) of (m, e) \<Rightarrow> FloatNum m e)"





section \<open>Values, errors and the Context\<close>

text \<open>
  The values a tool keeps in the context: strings, integers, booleans, \<^verbatim>\<open>None\<close>, lists
  and dictionaries with string keys. A dictionary is an association list in insertion
  order; \<open>AList.update\<close> is Python's \<^verbatim>\<open>d[k] = v\<close> (an existing key keeps its place, a
  new key goes last).
\<close>

datatype pyval =
    PyNone
  | PyBool bool
  | PyInt int
  | PyStr string
  | PyList "pyval list"
  | PyDict "(string \<times> pyval) list"

text \<open>The exceptions that can leave the functions modelled here.\<close>

datatype error =
    ValueError
  | TypeError
  | EOFError
  | JSONDecodeError
  | FileNotFoundError
  | IsADirectoryError
  | PermissionError
  | UnicodeDecodeError
  | LibraryError string

text \<open>
  A \<^verbatim>\<open>Context\<close> is used by the scripts as a key-value store (\<^verbatim>\<open>ctx.get(key)\<close>,
  \<^verbatim>\<open>ctx.set(key, value)\<close>). \<^verbatim>\<open>ctx.get\<close> of a key that was never set raises.
\<close>

record Context =
  store :: "(string \<times> pyval) list"

definition ctx_get :: "Context \<Rightarrow> string \<Rightarrow> error + pyval" where
  "ctx_get ctx key = (case map_of (store ctx) key of None \<Rightarrow> Inl ValueError | Some v \<Rightarrow> Inr v)"

definition ctx_set :: "Context \<Rightarrow> string \<Rightarrow> pyval \<Rightarrow> Context" where
  "ctx_set ctx key v = ctx\<lparr>store := AList.update key v (store ctx)\<rparr>"

text \<open>
  \<^verbatim>\<open>3a_tools_and_state.py\<close>, \<^verbatim>\<open>set_name\<close>:
  \<^verbatim>\<open>
    state = await ctx.get("state")
    state["name"] = name
    await ctx.set("state", state)
    return f"Name set to {name}"
  \<close>
  The item assignment raises \<^verbatim>\<open>TypeError\<close> when the stored state is not a dictionary.
  The result is the returned string and the context as the tool leaves it.
\<close>

definition set_name :: "Context \<Rightarrow> string \<Rightarrow> error + (string \<times> Context)" where
  "set_name ctx name =
     (case ctx_get ctx ''state'' of
        Inl e \<Rightarrow> Inl e
      | Inr (PyDict state) \<Rightarrow>
          Inr (''Name set to '' @ name,
               ctx_set ctx ''state'' (PyDict (AList.update ''name'' (PyStr name) state)))
      | Inr _ \<Rightarrow> Inl TypeError)"

text \<open>
  \<^verbatim>\<open>initial_state={"name": "unset"}\<close> of the workflow in \<^verbatim>\<open>3a_tools_and_state.py\<close>, and a
  context that holds it under the key \<^verbatim>\<open>"state"\<close>, where \<^verbatim>\<open>set_name\<close> reads it.
\<close>

definition initial_state :: "(string \<times> pyval) list" where
  "initial_state = [(''name'', PyStr ''unset'')]"

definition initial_context :: Context where
  "initial_context = \<lparr>store = [(''state'', PyDict initial_state)]\<rparr>"

section \<open>Strings\<close>

text \<open>
  A string is a list of characters with code points below 256. \<^verbatim>\<open>str.lower()\<close> maps
  \<^verbatim>\<open>A\<close>..\<^verbatim>\<open>Z\<close> (65..90) and the Latin-1 capitals (192..222 without the
  multiplication sign 215) to the code point 32 further on and keeps every other one.
\<close>

definition lower_char :: "char \<Rightarrow> char" where
  "lower_char c =
     (let n = (of_char c :: nat)
      in if (65 \<le> n \<and> n \<le> 90) \<or> (192 \<le> n \<and> n \<le> 222 \<and> n \<noteq> 215)
         then char_of (n + 32) else c)"

definition lower :: "string \<Rightarrow> string" where
  "lower s = map lower_char s"

section \<open>The library and the file system\<close>

text \<open>
  The scripts call functions of \<^verbatim>\<open>llama_index\<close> and of \<^verbatim>\<open>json\<close> whose code is not part
  of the repository. They are parameters of the model, one field each:
  \<^item> \<open>to_dict\<close>: \<^verbatim>\<open>ctx.to_dict(serializer=JsonSerializer())\<close>;
  \<^item> \<open>from_dict\<close>: \<^verbatim>\<open>Context.from_dict(workflow, ctx_dict, serializer=JsonSerializer())\<close>;
  \<^item> \<open>json_dump\<close>: the chunks \<^verbatim>\<open>json.dump(ctx_dict, f, indent=2)\<close> hands to \<^verbatim>\<open>f.write\<close>,
    in order;
  \<^item> \<open>json_scan\<close>: the value \<^verbatim>\<open>json.load\<close> decodes from a text that starts with its first
    character that is not white space;
  \<^item> \<open>workflow_run\<close>: \<^verbatim>\<open>await workflow.run(user_msg=user_msg, ctx=ctx)\<close>, the printed
    response and the context as the turn leaves it.
  Each of them can raise, except \<open>json_dump\<close> on a dictionary that \<open>to_dict\<close> returned.
\<close>

record library =
  to_dict :: "Context \<Rightarrow> error + pyval"
  from_dict :: "pyval \<Rightarrow> error + Context"
  json_dump :: "pyval \<Rightarrow> string list"
  json_scan :: "string \<Rightarrow> error + pyval"
  workflow_run :: "Context \<Rightarrow> string \<Rightarrow> error + (string \<times> Context)"

text \<open>
  \<^verbatim>\<open>json.load\<close> skips leading white space (space, tab, line feed, carriage return) and
  raises \<^verbatim>\<open>JSONDecodeError\<close> ("Expecting value") when nothing is left.
\<close>

definition json_whitespace :: "char \<Rightarrow> bool" where
  "json_whitespace c = (c \<in> set [CHR '' '', CHR 0x09, CHR 0x0A, CHR 0x0D])"

definition json_load :: "library \<Rightarrow> string \<Rightarrow> error + pyval" where
  "json_load lib text =
     (let rest = dropWhile json_whitespace text
      in if rest = [] then Inl JSONDecodeError else json_scan lib rest)"

text \<open>
  The file system maps the path of a regular file that can be read and written to its
  content. Opening a file with mode \<^verbatim>\<open>"w"\<close> creates it or truncates it to the empty
  content; each \<^verbatim>\<open>write\<close> appends.
\<close>

type_synonym filesystem = "string \<rightharpoonup> string"

datatype file_op = OpenW string | Write string string

fun exec_op :: "file_op \<Rightarrow> filesystem \<Rightarrow> filesystem" where
  "exec_op (OpenW path) fs = fs(path \<mapsto> [])"
| "exec_op (Write path chunk) fs =
     fs(path \<mapsto> (case fs path of None \<Rightarrow> chunk | Some text \<Rightarrow> text @ chunk))"

definition exec_ops :: "file_op list \<Rightarrow> filesystem \<Rightarrow> filesystem" where
  "exec_ops ops fs = fold exec_op ops fs"

definition HISTORY_FILE :: string where
  "HISTORY_FILE = ''history.json''"

text \<open>
  What else is at a path: \<open>unreadable\<close> maps a path that exists but that cannot be opened
  or read as text to the error that \<^verbatim>\<open>open(path, "r")\<close> or the read raises (a directory:
  \<^verbatim>\<open>IsADirectoryError\<close>; a file without read permission: \<^verbatim>\<open>PermissionError\<close>; bytes that
  are not text: \<^verbatim>\<open>UnicodeDecodeError\<close>). \<^verbatim>\<open>os.path.exists\<close> is true of such a path too.
\<close>

type_synonym obstacles = "string \<rightharpoonup> error"

definition path_exists :: "obstacles \<Rightarrow> filesystem \<Rightarrow> string \<Rightarrow> bool" where
  "path_exists unreadable fs path = (fs path \<noteq> None \<or> unreadable path \<noteq> None)"

definition read_text :: "obstacles \<Rightarrow> filesystem \<Rightarrow> string \<Rightarrow> error + string" where
  "read_text unreadable fs path =
     (case unreadable path of
        Some e \<Rightarrow> Inl e
      | None \<Rightarrow> (case fs path of Some t \<Rightarrow> Inr t | None \<Rightarrow> Inl FileNotFoundError))"

text \<open>\<^verbatim>\<open>Context(workflow)\<close>: a new context, with nothing stored.\<close>

definition new_Context :: Context where
  "new_Context = \<lparr>store = []\<rparr>"

text \<open>
  \<^verbatim>\<open>load_context\<close> (the same in \<^verbatim>\<open>3_state.py\<close> and \<^verbatim>\<open>3a_tools_and_state.py\<close>):
  \<^verbatim>\<open>
    if os.path.exists(HISTORY_FILE):
        with open(HISTORY_FILE, "r") as f:
            ctx_dict = json.load(f)
        return Context.from_dict(workflow, ctx_dict, serializer=JsonSerializer())
    return Context(workflow)
  \<close>
  Nothing in it catches an error: what the open, the read, \<^verbatim>\<open>json.load\<close> or
  \<^verbatim>\<open>Context.from_dict\<close> raises leaves \<^verbatim>\<open>load_context\<close>.
\<close>

definition load_context :: "library \<Rightarrow> obstacles \<Rightarrow> filesystem \<Rightarrow> error + Context" where
  "load_context lib unreadable fs =
     (if path_exists unreadable fs HISTORY_FILE then
        (case read_text unreadable fs HISTORY_FILE of
           Inl e \<Rightarrow> Inl e
         | Inr t \<Rightarrow>
             (case json_load lib t of
                Inl e \<Rightarrow> Inl e
              | Inr ctx_dict \<Rightarrow> from_dict lib ctx_dict))
      else Inr new_Context)"

text \<open>
  \<^verbatim>\<open>save_context\<close> (the same in both scripts):
  \<^verbatim>\<open>
    ctx_dict = ctx.to_dict(serializer=JsonSerializer())
    with open(HISTORY_FILE, "w") as f:
        json.dump(ctx_dict, f, indent=2)
  \<close>
  \<open>save_ops\<close> lists the operations on the file in the order the code performs them:
  the open, then one write for each chunk.
\<close>

definition save_ops :: "library \<Rightarrow> pyval \<Rightarrow> file_op list" where
  "save_ops lib ctx_dict = OpenW HISTORY_FILE # map (Write HISTORY_FILE) (json_dump lib ctx_dict)"

definition save_context :: "library \<Rightarrow> Context \<Rightarrow> filesystem \<Rightarrow> error + filesystem" where
  "save_context lib ctx fs =
     (case to_dict lib ctx of
        Inl e \<Rightarrow> Inl e
      | Inr ctx_dict \<Rightarrow> Inr (exec_ops (save_ops lib ctx_dict) fs))"

text \<open>
  The file system that an execution of \<^verbatim>\<open>save_context\<close> leaves behind when it is stopped
  after \<open>k\<close> operations on the file by an exception raised there (an interrupt from the
  keyboard, an error of a write), which closes the file with what was written: \<open>k = 0\<close>
  is before the open, \<open>k = 1\<close> after the open and before the first write. A kill of the
  process can leave less of what was written, never more.
\<close>

definition save_context_stopped :: "library \<Rightarrow> nat \<Rightarrow> Context \<Rightarrow> filesystem \<Rightarrow> filesystem" where
  "save_context_stopped lib k ctx fs =
     (case to_dict lib ctx of
        Inl e \<Rightarrow> fs
      | Inr ctx_dict \<Rightarrow> exec_ops (take k (save_ops lib ctx_dict)) fs)"

section \<open>The chat loop\<close>

text \<open>
  The two scripts differ in the texts they print only.
\<close>

datatype script = State_3 | Tools_and_state_3a

fun ending_text :: "script \<Rightarrow> string" where
  "ending_text State_3 = ''Ending chat. Saving history...''"
| "ending_text Tools_and_state_3a = ''Ending chat. Saving memory...''"

fun goodbye_text :: "script \<Rightarrow> string" where
  "goodbye_text State_3 = ''History saved. Goodbye!''"
| "goodbye_text Tools_and_state_3a = ''Memory saved. Goodbye!''"

text \<open>
  What the loop does, in order: \<open>Input\<close> is a line read by \<^verbatim>\<open>input("Client: ")\<close>,
  \<open>Run\<close> a call of \<^verbatim>\<open>workflow.run\<close> with that line, \<open>Print\<close> a \<^verbatim>\<open>print\<close>, \<open>Save\<close> a
  call of \<^verbatim>\<open>save_context\<close> that returned.
\<close>

datatype event = Input string | Run string | Print string | Save

text \<open>
  How the loop ends: by \<^verbatim>\<open>break\<close>; with the \<^verbatim>\<open>EOFError\<close> of \<^verbatim>\<open>input\<close> when the lines
  given are used up; or with an exception of \<^verbatim>\<open>workflow.run\<close> or \<^verbatim>\<open>save_context\<close>, which
  nothing in the scripts catches.
\<close>

datatype outcome = Exited | EndOfInput | Raised error

text \<open>
  \<^verbatim>\<open>chat_loop\<close> from its \<^verbatim>\<open>while True:\<close> on, with the lines the user types, the loaded
  context and the file system:
  \<^verbatim>\<open>
    while True:
        user_msg = input("Client: ")
        if user_msg.lower() in ["exit", "quit"]:
            print("Ending chat. Saving memory...")
            save_context(ctx)
            print("Memory saved. Goodbye!")
            break
        response = await workflow.run(user_msg=user_msg, ctx=ctx)
        print(f"Agent: {response}\n")
        save_context(ctx)
  \<close>
  The result is the events, the outcome, and the context and the file system at the end
  (when \<^verbatim>\<open>workflow.run\<close> raises, the context as it was before that call).
\<close>

fun chat_loop ::
  "script \<Rightarrow> library \<Rightarrow> string list \<Rightarrow> Context \<Rightarrow> filesystem
     \<Rightarrow> event list \<times> outcome \<times> Context \<times> filesystem" where
  "chat_loop sc lib [] ctx fs = ([], EndOfInput, ctx, fs)"
| "chat_loop sc lib (user_msg # rest) ctx fs =
     (if lower user_msg \<in> set [''exit'', ''quit''] then
        (case save_context lib ctx fs of
           Inl e \<Rightarrow> ([Input user_msg, Print (ending_text sc)], Raised e, ctx, fs)
         | Inr fs' \<Rightarrow>
             ([Input user_msg, Print (ending_text sc), Save, Print (goodbye_text sc)],
              Exited, ctx, fs'))
      else
        (case workflow_run lib ctx user_msg of
           Inl e \<Rightarrow> ([Input user_msg, Run user_msg], Raised e, ctx, fs)
         | Inr (response, ctx') \<Rightarrow>
             (case save_context lib ctx' fs of
                Inl e \<Rightarrow>
                  ([Input user_msg, Run user_msg, Print (''Agent: '' @ response @ [CHR 0x0A])],
                   Raised e, ctx', fs)
              | Inr fs' \<Rightarrow>
                  (case chat_loop sc lib rest ctx' fs' of
                     (evs, result) \<Rightarrow>
                       ([Input user_msg, Run user_msg,
                         Print (''Agent: '' @ response @ [CHR 0x0A]), Save] @ evs, result)))))"



section \<open>A sample library\<close>

text \<open>
  An instance of the library's functions, to run the definitions above on concrete
  inputs. Its \<open>to_dict\<close> returns the store as a dictionary and its \<open>from_dict\<close> takes
  it back; its \<open>workflow_run\<close> is an agent that answers every message by calling
  \<open>set_name\<close> with it. It knows two documents, the initial state and the state with the
  name \<^verbatim>\<open>Ayan\<close>, with the chunks \<^verbatim>\<open>json.dump(..., indent=2)\<close> writes for them; any other
  dictionary is written as \<^verbatim>\<open>{}\<close>.
\<close>

definition named_state :: "(string \<times> pyval) list" where
  "named_state = [(''name'', PyStr ''Ayan'')]"

definition named_context :: Context where
  "named_context = \<lparr>store = [(''state'', PyDict named_state)]\<rparr>"

definition sample_chunks :: "string \<Rightarrow> string list" where
  \<open>sample_chunks name =
     [''{'', [CHR 0x0A] @ ''  '', ''"state"'', '': '',
      ''{'', [CHR 0x0A] @ ''    '', ''"name"'', '': '', ''"'' @ name @ ''"'',
      [CHR 0x0A] @ ''  '', ''}'', [CHR 0x0A], ''}'']\<close>

definition sample_documents :: "(pyval \<times> string list) list" where
  "sample_documents =
     [(PyDict (store initial_context), sample_chunks ''unset''),
      (PyDict (store named_context), sample_chunks ''Ayan'')]"

definition sample_library :: library where
  "sample_library =
     \<lparr>to_dict = (\<lambda>ctx. Inr (PyDict (store ctx))),
      from_dict = (\<lambda>d. case d of PyDict s \<Rightarrow> Inr \<lparr>store = s\<rparr> | _ \<Rightarrow> Inl TypeError),
      json_dump = (\<lambda>d. case map_of sample_documents d of Some chunks \<Rightarrow> chunks | None \<Rightarrow> [''{}'']),
      json_scan = (\<lambda>text. case find (\<lambda>(d, chunks). concat chunks = text) sample_documents of
                             Some (d, chunks) \<Rightarrow> Inr d
                           | None \<Rightarrow> Inl JSONDecodeError),
      workflow_run = set_name\<rparr>"


section \<open>Writing the file\<close>

lemma fold_write:
  "fs p = Some t \<Longrightarrow> fold exec_op (map (Write p) chunks) fs = fs(p \<mapsto> t @ concat chunks)"
proof (induction chunks arbitrary: fs t)
  case Nil
  then show ?case by (simp add: map_upd_triv)
next
  case (Cons c cs)
  have "fold exec_op (map (Write p) cs) (fs(p \<mapsto> t @ c)) = (fs(p \<mapsto> t @ c))(p \<mapsto> (t @ c) @ concat cs)"
    by (rule Cons.IH) simp
  with Cons.prems show ?case by simp
qed

lemma exec_save_ops_prefix:
  "exec_ops (take (Suc k) (save_ops lib d)) fs = fs(HISTORY_FILE \<mapsto> concat (take k (json_dump lib d)))"
proof -
  have "fold exec_op (map (Write HISTORY_FILE) (take k (json_dump lib d))) (fs(HISTORY_FILE \<mapsto> []))
          = (fs(HISTORY_FILE \<mapsto> []))(HISTORY_FILE \<mapsto> [] @ concat (take k (json_dump lib d)))"
    by (rule fold_write) simp
  then show ?thesis by (simp add: exec_ops_def save_ops_def take_map)
qed

lemma exec_save_ops_all:
  "exec_ops (save_ops lib d) fs = fs(HISTORY_FILE \<mapsto> concat (json_dump lib d))"
proof -
  have "take (Suc (length (json_dump lib d))) (save_ops lib d) = save_ops lib d"
    by (simp add: save_ops_def)
  with exec_save_ops_prefix [of "length (json_dump lib d)" lib d fs] show ?thesis by simp
qed

lemma save_context_eq:
  "save_context lib ctx fs =
     (case to_dict lib ctx of
        Inl e \<Rightarrow> Inl e
      | Inr d \<Rightarrow> Inr (fs(HISTORY_FILE \<mapsto> concat (json_dump lib d))))"
  by (simp add: save_context_def exec_save_ops_all split: sum.splits)


text \<open>
  What \<^verbatim>\<open>load_context\<close> returns after a \<^verbatim>\<open>save_context\<close> is what the library decodes from
  what the library encoded: the scripts write and read the same file, whole.
\<close>

lemma load_after_save:
  "save_context lib ctx fs = Inr fs' \<Longrightarrow> to_dict lib ctx = Inr d \<Longrightarrow>
   unreadable HISTORY_FILE = None \<Longrightarrow>
   load_context lib unreadable fs' =
     (case json_load lib (concat (json_dump lib d)) of Inl e \<Rightarrow> Inl e | Inr j \<Rightarrow> from_dict lib j)"
  by (auto simp: save_context_eq load_context_def path_exists_def read_text_def split: sum.splits)

lemma exec_ops_Nil: "exec_ops [] fs = fs"
  by (simp add: exec_ops_def)

section \<open>The chat loop: every turn that ran is saved before the next line is read\<close>




section \<open>The sample library at work\<close>

lemma to_dict_sample:
  "to_dict sample_library named_context = Inr (PyDict (store named_context))"
  "json_dump sample_library (PyDict (store named_context)) = sample_chunks ''Ayan''"
  by (simp_all add: sample_library_def sample_documents_def named_context_def initial_context_def
      named_state_def initial_state_def)

lemma save_sample:
  "save_context sample_library named_context fs =
     Inr (fs(HISTORY_FILE \<mapsto> concat (sample_chunks ''Ayan'')))"
  by (simp add: save_context_eq to_dict_sample)


lemma json_load_sample:
  "json_load sample_library (concat (sample_chunks ''Ayan'')) = Inr (PyDict (store named_context))"
proof -
  have "dropWhile json_whitespace (concat (sample_chunks ''Ayan'')) = concat (sample_chunks ''Ayan'')"
    by (simp add: sample_chunks_def json_whitespace_def)
  moreover have "concat (sample_chunks ''Ayan'') \<noteq> []"
    by (simp add: sample_chunks_def)
  moreover have "json_scan sample_library (concat (sample_chunks ''Ayan'')) = Inr (PyDict (store named_context))"
    by (simp add: sample_library_def sample_documents_def sample_chunks_def)
  ultimately show ?thesis by (simp add: json_load_def)
qed

lemma stopped_sample:
  "save_context_stopped sample_library (Suc k) named_context fs =
     fs(HISTORY_FILE \<mapsto> concat (take k (sample_chunks ''Ayan'')))"
  by (simp add: save_context_stopped_def to_dict_sample exec_save_ops_prefix)



section \<open>Rounding\<close>










section \<open>The chat loop: what the file holds\<close>


section \<open>More runs of the sample library\<close>







lemma set_name_blank_exit:
  "set_name initial_context '' exit'' =
     Inr (''Name set to  exit'', \<lparr>store = [(''state'', PyDict [(''name'', PyStr '' exit'')])]\<rparr>)"
  by (simp add: set_name_def ctx_get_def ctx_set_def initial_context_def initial_state_def)

lemma save_blank_exit:
  "save_context sample_library \<lparr>store = [(''state'', PyDict [(''name'', PyStr '' exit'')])]\<rparr> Map.empty
     = Inr [HISTORY_FILE \<mapsto> ''{}'']"
  by (simp add: save_context_eq sample_library_def sample_documents_def initial_context_def
      initial_state_def named_context_def named_state_def)

section \<open>The claims\<close>

text \<open>
  C4, as amended. A \<open>save_context\<close> that runs to its end replaces the content of
  \<^verbatim>\<open>history.json\<close> by the whole new record, and one whose \<open>to_dict\<close> raises leaves the
  file system as it was. The save is not atomic: the file is emptied when it is opened
  and then written chunk by chunk, so an execution stopped after the open and \<open>k\<close>
  writes leaves the first \<open>k\<close> chunks of the new record, and nothing of the prior one.
\<close>

theorem save_context_replaces_or_truncates:
  "(\<forall>e. to_dict lib ctx = Inl e \<longrightarrow>
        save_context lib ctx fs = Inl e \<and> save_context_stopped lib k ctx fs = fs) \<and>
   (\<forall>d. to_dict lib ctx = Inr d \<longrightarrow>
        save_context lib ctx fs = Inr (fs(HISTORY_FILE \<mapsto> concat (json_dump lib d))) \<and>
        save_context_stopped lib 0 ctx fs = fs \<and>
        save_context_stopped lib (Suc k) ctx fs = fs(HISTORY_FILE \<mapsto> concat (take k (json_dump lib d))) \<and>
        (length (json_dump lib d) \<le> k \<longrightarrow>
           save_context_stopped lib (Suc k) ctx fs = fs(HISTORY_FILE \<mapsto> concat (json_dump lib d))))"
  by (simp add: save_context_eq save_context_stopped_def exec_save_ops_prefix exec_ops_Nil)

theorem save_context_replaces_or_truncates_witness:
  "to_dict sample_library named_context = Inr (PyDict (store named_context)) \<and>
   save_context sample_library named_context [HISTORY_FILE \<mapsto> ''old'']
     = Inr [HISTORY_FILE \<mapsto> concat (sample_chunks ''Ayan'')] \<and>
   save_context_stopped sample_library (Suc 2) named_context [HISTORY_FILE \<mapsto> ''old'']
     = [HISTORY_FILE \<mapsto> ''{'' @ [CHR 0x0A] @ ''  ''] \<and>
   (length (sample_chunks ''Ayan'') \<le> 13 \<and>
    save_context_stopped sample_library (Suc 13) named_context [HISTORY_FILE \<mapsto> ''old'']
     = [HISTORY_FILE \<mapsto> concat (sample_chunks ''Ayan'')])"
proof -
  have 2: "take 2 (sample_chunks ''Ayan'') = [''{'', [CHR 0x0A] @ ''  '']"
    by (simp add: sample_chunks_def)
  have 13: "length (sample_chunks ''Ayan'') \<le> 13"
    by (simp add: sample_chunks_def)
  show ?thesis
    using save_context_replaces_or_truncates [of sample_library named_context "[HISTORY_FILE \<mapsto> ''old'']" 2]
      save_context_replaces_or_truncates [of sample_library named_context "[HISTORY_FILE \<mapsto> ''old'']" 13]
      13
    by (simp add: to_dict_sample 2)
qed

text \<open>
  C4 as the specification states it, that no execution leaves anything but the prior
  record or the whole new one, fails: with the record of the initial state on disk, a
  save of the state with the name \<^verbatim>\<open>Ayan\<close> that is stopped right after the open leaves
  the empty file, and one stopped after four writes leaves the opening brace and the
  second line up to \<^verbatim>\<open>"state": \<close>.
\<close>

theorem save_context_stopped_counterexample:
  "save_context_stopped sample_library 1 named_context
       [HISTORY_FILE \<mapsto> concat (sample_chunks ''unset'')] HISTORY_FILE = Some [] \<and>
   Some [] \<noteq> [HISTORY_FILE \<mapsto> concat (sample_chunks ''unset'')] HISTORY_FILE \<and>
   save_context sample_library named_context [HISTORY_FILE \<mapsto> concat (sample_chunks ''unset'')]
     = Inr [HISTORY_FILE \<mapsto> concat (sample_chunks ''Ayan'')] \<and>
   Some [] \<noteq> [HISTORY_FILE \<mapsto> concat (sample_chunks ''Ayan'')] HISTORY_FILE \<and>
   save_context_stopped sample_library 5 named_context
       [HISTORY_FILE \<mapsto> concat (sample_chunks ''unset'')] HISTORY_FILE
     = Some (''{'' @ [CHR 0x0A] @ ''  '' @ [CHR 0x22] @ ''state'' @ [CHR 0x22] @ '': '')"
proof -
  have 1: "(1::nat) = Suc 0" and 5: "(5::nat) = Suc 4" by simp_all
  have 4: "take 4 (sample_chunks ''Ayan'') = [''{'', [CHR 0x0A] @ ''  '', [CHR 0x22] @ ''state'' @ [CHR 0x22], '': '']"
    by (simp add: sample_chunks_def)
  show ?thesis
    unfolding 1 5 stopped_sample save_sample 4
    by (simp add: sample_chunks_def)
qed




text \<open>
  C6, as amended. \<open>load_context\<close> returns a context in two ways only: the new, empty
  context when nothing exists at \<^verbatim>\<open>history.json\<close>, and the context that \<open>from_dict\<close>
  rebuilds when the file can be read, its content decodes as JSON and \<open>from_dict\<close>
  accepts the result. In every other case it raises and returns no context: the error
  of the open or the read, the error of \<^verbatim>\<open>json.load\<close> (\<^verbatim>\<open>JSONDecodeError\<close> on a file that is
  empty or holds white space only), or the error of \<open>from_dict\<close>.
\<close>

theorem load_context_returns_or_raises:
  "(load_context lib unreadable fs = Inr c \<longleftrightarrow>
      (\<not> path_exists unreadable fs HISTORY_FILE \<and> c = new_Context) \<or>
      (\<exists>t d. unreadable HISTORY_FILE = None \<and> fs HISTORY_FILE = Some t \<and>
             json_load lib t = Inr d \<and> from_dict lib d = Inr c)) \<and>
   (\<not> path_exists unreadable fs HISTORY_FILE \<longrightarrow> load_context lib unreadable fs = Inr new_Context) \<and>
   (\<forall>e. unreadable HISTORY_FILE = Some e \<longrightarrow> load_context lib unreadable fs = Inl e) \<and>
   (\<forall>t. unreadable HISTORY_FILE = None \<and> fs HISTORY_FILE = Some t \<longrightarrow>
      (\<forall>e. json_load lib t = Inl e \<longrightarrow> load_context lib unreadable fs = Inl e) \<and>
      (\<forall>d. json_load lib t = Inr d \<longrightarrow> load_context lib unreadable fs = from_dict lib d) \<and>
      (dropWhile json_whitespace t = [] \<longrightarrow> load_context lib unreadable fs = Inl JSONDecodeError))"
  by (auto simp: load_context_def json_load_def path_exists_def read_text_def
      split: option.splits sum.splits)

theorem load_context_returns_or_raises_witness:
  "\<not> path_exists Map.empty Map.empty HISTORY_FILE \<and>
   load_context sample_library Map.empty Map.empty = Inr new_Context \<and>
   json_load sample_library (concat (sample_chunks ''Ayan'')) = Inr (PyDict (store named_context)) \<and>
   from_dict sample_library (PyDict (store named_context)) = Inr named_context \<and>
   load_context sample_library Map.empty [HISTORY_FILE \<mapsto> concat (sample_chunks ''Ayan'')] = Inr named_context \<and>
   load_context sample_library [HISTORY_FILE \<mapsto> PermissionError] Map.empty = Inl PermissionError \<and>
   dropWhile json_whitespace ''  '' = [] \<and>
   load_context sample_library Map.empty [HISTORY_FILE \<mapsto> ''  ''] = Inl JSONDecodeError"
proof -
  have f: "from_dict sample_library (PyDict (store named_context)) = Inr named_context"
    by (simp add: sample_library_def named_context_def)
  have w: "dropWhile json_whitespace ''  '' = []"
    by (simp add: json_whitespace_def)
  have e: "\<not> path_exists Map.empty Map.empty HISTORY_FILE"
    by (simp add: path_exists_def)
  have u: "(Map.empty :: obstacles) HISTORY_FILE = None"
    and p: "[HISTORY_FILE \<mapsto> PermissionError] HISTORY_FILE = Some PermissionError"
    by simp_all
  have s1: "[HISTORY_FILE \<mapsto> concat (sample_chunks ''Ayan'')] HISTORY_FILE
              = Some (concat (sample_chunks ''Ayan''))"
    and s2: "[HISTORY_FILE \<mapsto> ''  ''] HISTORY_FILE = Some ''  ''"
    by simp_all
  have 1: "load_context sample_library Map.empty Map.empty = Inr new_Context"
    using load_context_returns_or_raises [of sample_library Map.empty Map.empty] e by blast
  have 2: "load_context sample_library Map.empty [HISTORY_FILE \<mapsto> concat (sample_chunks ''Ayan'')]
             = Inr named_context"
    using load_context_returns_or_raises
            [of sample_library Map.empty "[HISTORY_FILE \<mapsto> concat (sample_chunks ''Ayan'')]" named_context]
      u s1 json_load_sample f by blast
  have 3: "load_context sample_library [HISTORY_FILE \<mapsto> PermissionError] Map.empty = Inl PermissionError"
    using load_context_returns_or_raises [of sample_library "[HISTORY_FILE \<mapsto> PermissionError]" Map.empty] p
    by blast
  have 4: "load_context sample_library Map.empty [HISTORY_FILE \<mapsto> ''  ''] = Inl JSONDecodeError"
    using load_context_returns_or_raises [of sample_library Map.empty "[HISTORY_FILE \<mapsto> ''  '']"] u s2 w
    by blast
  from e json_load_sample f w 1 2 3 4 show ?thesis by blast
qed

text \<open>
  C6 as the specification states it, that a context is returned whenever the file
  exists, fails on the empty file, which a save stopped after its open leaves behind:
  the file exists and \<open>load_context\<close> raises. It fails on a directory of that name too.
\<close>

theorem load_context_counterexample:
  "path_exists Map.empty [HISTORY_FILE \<mapsto> []] HISTORY_FILE \<and>
   load_context sample_library Map.empty [HISTORY_FILE \<mapsto> []] = Inl JSONDecodeError \<and>
   path_exists [HISTORY_FILE \<mapsto> IsADirectoryError] Map.empty HISTORY_FILE \<and>
   load_context sample_library [HISTORY_FILE \<mapsto> IsADirectoryError] Map.empty = Inl IsADirectoryError"
  by (simp add: load_context_def json_load_def path_exists_def read_text_def)




text \<open>
  C9. On a context whose state is a dictionary, \<open>set_name\<close> returns \<^verbatim>\<open>Name set to \<close>
  followed by the name, binds the key \<^verbatim>\<open>name\<close> of the state to the name, and leaves
  every other key of the state and every other key of the context as it was.
\<close>

theorem set_name_frame:
  assumes "ctx_get ctx ''state'' = Inr (PyDict state)"
  shows "\<exists>ctx' state'.
           set_name ctx name = Inr (''Name set to '' @ name, ctx') \<and>
           ctx_get ctx' ''state'' = Inr (PyDict state') \<and>
           map_of state' ''name'' = Some (PyStr name) \<and>
           (\<forall>k. k \<noteq> ''name'' \<longrightarrow> map_of state' k = map_of state k) \<and>
           (\<forall>key. key \<noteq> ''state'' \<longrightarrow> ctx_get ctx' key = ctx_get ctx key)"
  using assms
  by (simp add: set_name_def ctx_get_def ctx_set_def update_conv')

theorem set_name_frame_witness:
  "ctx_get \<lparr>store = [(''memory'', PyList []),
                     (''state'', PyDict [(''name'', PyStr ''unset''), (''city'', PyStr ''Pune'')])]\<rparr>
           ''state''
     = Inr (PyDict [(''name'', PyStr ''unset''), (''city'', PyStr ''Pune'')]) \<and>
   (\<exists>ctx' state'.
      set_name \<lparr>store = [(''memory'', PyList []),
                         (''state'', PyDict [(''name'', PyStr ''unset''), (''city'', PyStr ''Pune'')])]\<rparr>
               ''Ayan''
        = Inr (''Name set to Ayan'', ctx') \<and>
      ctx_get ctx' ''state'' = Inr (PyDict state') \<and>
      map_of state' ''name'' = Some (PyStr ''Ayan'') \<and>
      map_of state' ''city'' = Some (PyStr ''Pune'') \<and>
      ctx_get ctx' ''memory'' = Inr (PyList []))"
proof -
  let ?st = "[(''name'', PyStr ''unset''), (''city'', PyStr ''Pune'')]"
  let ?c = "\<lparr>store = [(''memory'', PyList []), (''state'', PyDict ?st)]\<rparr>"
  have h: "ctx_get ?c ''state'' = Inr (PyDict ?st)"
    by (simp add: ctx_get_def)
  from set_name_frame [OF h, of "''Ayan''"] obtain ctx' state' where
    r: "set_name ?c ''Ayan'' = Inr (''Name set to '' @ ''Ayan'', ctx')"
       "ctx_get ctx' ''state'' = Inr (PyDict state')"
       "map_of state' ''name'' = Some (PyStr ''Ayan'')"
       "\<forall>k. k \<noteq> ''name'' \<longrightarrow> map_of state' k = map_of ?st k"
       "\<forall>key. key \<noteq> ''state'' \<longrightarrow> ctx_get ctx' key = ctx_get ?c key"
    by blast
  from r(4) have "map_of state' ''city'' = Some (PyStr ''Pune'')" by simp
  moreover from r(5) have "ctx_get ctx' ''memory'' = Inr (PyList [])" by (simp add: ctx_get_def)
  ultimately show ?thesis using h r(1,2,3) by auto
qed

text \<open>
  C10. The exit test compares the lower-cased line with \<^verbatim>\<open>exit\<close> and \<^verbatim>\<open>quit\<close>. On a
  line that passes it the loop calls \<open>save_context\<close> and ends: no turn runs, and the
  lines that follow are not read. On any other line the loop runs a turn with it: it
  calls \<^verbatim>\<open>workflow.run\<close> with the context and that line, prints the response, saves the
  context the turn left and goes on with the next line (or ends with the error raised).
  \<^verbatim>\<open>EXIT\<close> and \<^verbatim>\<open>Quit\<close> pass the test; \<^verbatim>\<open> exit\<close>, with a leading blank, does not.
\<close>

theorem chat_loop_exit_test:
  "(lower user_msg \<in> {''exit'', ''quit''} \<longrightarrow>
      chat_loop sc lib (user_msg # rest) ctx fs =
        (case save_context lib ctx fs of
           Inl e \<Rightarrow> ([Input user_msg, Print (ending_text sc)], Raised e, ctx, fs)
         | Inr fs' \<Rightarrow>
             ([Input user_msg, Print (ending_text sc), Save, Print (goodbye_text sc)],
              Exited, ctx, fs')) \<and>
      (\<forall>m. Run m \<notin> set (fst (chat_loop sc lib (user_msg # rest) ctx fs))) \<and>
      chat_loop sc lib (user_msg # rest) ctx fs = chat_loop sc lib [user_msg] ctx fs) \<and>
   (lower user_msg \<notin> {''exit'', ''quit''} \<longrightarrow>
      take 2 (fst (chat_loop sc lib (user_msg # rest) ctx fs)) = [Input user_msg, Run user_msg] \<and>
      chat_loop sc lib (user_msg # rest) ctx fs =
        (case workflow_run lib ctx user_msg of
           Inl e \<Rightarrow> ([Input user_msg, Run user_msg], Raised e, ctx, fs)
         | Inr (response, ctx') \<Rightarrow>
             (case save_context lib ctx' fs of
                Inl e \<Rightarrow>
                  ([Input user_msg, Run user_msg, Print (''Agent: '' @ response @ [CHR 0x0A])],
                   Raised e, ctx', fs)
              | Inr fs' \<Rightarrow>
                  ([Input user_msg, Run user_msg, Print (''Agent: '' @ response @ [CHR 0x0A]), Save]
                     @ fst (chat_loop sc lib rest ctx' fs'),
                   snd (chat_loop sc lib rest ctx' fs'))))) \<and>
   lower ''EXIT'' \<in> {''exit'', ''quit''} \<and> lower ''Quit'' \<in> {''exit'', ''quit''} \<and>
   lower '' exit'' \<notin> {''exit'', ''quit''}"
proof -
  have ex: "lower ''EXIT'' = ''exit''" "lower ''Quit'' = ''quit''" "lower '' exit'' = '' exit''"
    by code_simp+
  have a: "lower user_msg \<in> {''exit'', ''quit''} \<Longrightarrow>
      chat_loop sc lib (user_msg # rest) ctx fs =
        (case save_context lib ctx fs of
           Inl e \<Rightarrow> ([Input user_msg, Print (ending_text sc)], Raised e, ctx, fs)
         | Inr fs' \<Rightarrow>
             ([Input user_msg, Print (ending_text sc), Save, Print (goodbye_text sc)],
              Exited, ctx, fs'))" for rest
    by simp
  have b: "lower user_msg \<in> {''exit'', ''quit''} \<Longrightarrow>
      (\<forall>m. Run m \<notin> set (fst (chat_loop sc lib (user_msg # rest) ctx fs)))"
    by (simp add: a split: sum.splits)
  have c: "lower user_msg \<notin> {''exit'', ''quit''} \<Longrightarrow>
      take 2 (fst (chat_loop sc lib (user_msg # rest) ctx fs)) = [Input user_msg, Run user_msg]"
    by (simp split: sum.splits prod.splits)
  have d: "lower user_msg \<notin> {''exit'', ''quit''} \<Longrightarrow>
      chat_loop sc lib (user_msg # rest) ctx fs =
        (case workflow_run lib ctx user_msg of
           Inl e \<Rightarrow> ([Input user_msg, Run user_msg], Raised e, ctx, fs)
         | Inr (response, ctx') \<Rightarrow>
             (case save_context lib ctx' fs of
                Inl e \<Rightarrow>
                  ([Input user_msg, Run user_msg, Print (''Agent: '' @ response @ [CHR 0x0A])],
                   Raised e, ctx', fs)
              | Inr fs' \<Rightarrow>
                  ([Input user_msg, Run user_msg, Print (''Agent: '' @ response @ [CHR 0x0A]), Save]
                     @ fst (chat_loop sc lib rest ctx' fs'),
                   snd (chat_loop sc lib rest ctx' fs'))))"
    by (simp split: sum.splits prod.splits)
  show ?thesis using a [of rest] a [of "[]"] b c d ex by simp
qed

theorem chat_loop_exit_test_witness:
  "lower ''EXIT'' \<in> {''exit'', ''quit''} \<and>
   chat_loop State_3 sample_library [''EXIT'', ''Ayan''] initial_context Map.empty =
     ([Input ''EXIT'', Print ''Ending chat. Saving history...'', Save, Print ''History saved. Goodbye!''],
      Exited, initial_context, [HISTORY_FILE \<mapsto> concat (sample_chunks ''unset'')]) \<and>
   lower '' exit'' \<notin> {''exit'', ''quit''} \<and>
   take 2 (fst (chat_loop State_3 sample_library ['' exit'', ''Ayan''] initial_context Map.empty)) =
     [Input '' exit'', Run '' exit''] \<and>
   chat_loop State_3 sample_library ['' exit''] initial_context Map.empty =
     ([Input '' exit'', Run '' exit'', Print (''Agent: Name set to  exit'' @ [CHR 0x0A]), Save],
      EndOfInput, \<lparr>store = [(''state'', PyDict [(''name'', PyStr '' exit'')])]\<rparr>,
      [HISTORY_FILE \<mapsto> ''{}''])"
proof -
  have s: "save_context sample_library initial_context Map.empty =
             Inr [HISTORY_FILE \<mapsto> concat (sample_chunks ''unset'')]"
    by (simp add: save_context_eq sample_library_def sample_documents_def)
  have w: "workflow_run sample_library = set_name" by (simp add: sample_library_def)
  show ?thesis
    using chat_loop_exit_test [of "''EXIT''" State_3 sample_library "[''Ayan'']" initial_context Map.empty]
      chat_loop_exit_test [of "'' exit''" State_3 sample_library "[''Ayan'']" initial_context Map.empty]
      chat_loop_exit_test [of "'' exit''" State_3 sample_library "[]" initial_context Map.empty]
    by (simp add: s w set_name_blank_exit save_blank_exit)
qed

end
